theory Spec2Isabelle
  imports Complex_Main
begin

section \<open>Values shared by the three views\<close>

text \<open>
  The views are React function components. A component is modelled by a record of its
  \<open>useState\<close> cells, each event handler and each promise callback by the list of
  setter calls it makes (read against the state of the render that created it), and a
  render by a function from the state to a description of the returned element tree.
  The numbers that occur (page indices, page sizes, counts) are integral and are
  modelled as \<open>int\<close>.
\<close>

text \<open>What a \<open>fetch\<close> promise settles to: it rejects on a transport error, and
  otherwise fulfils with a response whose \<open>ok\<close> flag is true exactly for a 2xx status.
  \<open>json\<close> is the parsed body, read only on the paths that call \<open>response.json()\<close>.\<close>

datatype 'a response = Response (ok: bool) (json: 'a)

datatype 'a settled = Rejected | Fulfilled "'a response"

text \<open>A GET request: the path and the query string, parameter by parameter.\<close>

datatype qvalue = QStr string | QNum int | QFlag

record request =
  path :: string
  query :: "(string \<times> qvalue) list"

section \<open>AccountDetails\<close>

subsection \<open>State\<close>

record ITokenAccount =
  poolProtocolId :: string
  tokenIndex :: "string option"
  connector :: string
  key :: string
  balance :: string
  updated :: string

record ITx =
  tx_id :: string

record ITokenTransfer =
  tx :: ITx
  type :: string
  amount :: string
  from' :: "string option"
  to' :: "string option"
  created :: string

record transfers_body =
  total' :: int
  items :: "ITokenTransfer list"

definition PAGE_LIMITS :: "int list" where
  "PAGE_LIMITS = [5, 10]"

text \<open>The ambient values the component reads: the namespace context and the route
  parameter.\<close>

record ambient =
  selectedNamespace :: string
  poolProtocolID :: string

record account_state =
  loading :: bool
  tokenAccount :: "ITokenAccount option"
  tokenTransfers :: "ITokenTransfer list"
  tokenTransfersTotal :: int
  currentPage :: int
  rowsPerPage :: int

definition initial_state :: account_state where
  "initial_state =
     \<lparr>loading = False, tokenAccount = None, tokenTransfers = [],
      tokenTransfersTotal = 0, currentPage = 0, rowsPerPage = PAGE_LIMITS ! 0\<rparr>"

datatype set_state =
    SetLoading bool
  | SetTokenAccount "ITokenAccount option"
  | SetTokenTransfers "ITokenTransfer list"
  | SetTokenTransfersTotal int
  | SetCurrentPage int
  | SetRowsPerPage int

fun apply_set :: "account_state \<Rightarrow> set_state \<Rightarrow> account_state" where
  "apply_set st (SetLoading b) = st\<lparr>loading := b\<rparr>"
| "apply_set st (SetTokenAccount a) = st\<lparr>tokenAccount := a\<rparr>"
| "apply_set st (SetTokenTransfers xs) = st\<lparr>tokenTransfers := xs\<rparr>"
| "apply_set st (SetTokenTransfersTotal n) = st\<lparr>tokenTransfersTotal := n\<rparr>"
| "apply_set st (SetCurrentPage n) = st\<lparr>currentPage := n\<rparr>"
| "apply_set st (SetRowsPerPage n) = st\<lparr>rowsPerPage := n\<rparr>"

text \<open>The state after the setter calls of one handler or callback, in call order.\<close>

definition commit :: "account_state \<Rightarrow> set_state list \<Rightarrow> account_state" where
  "commit st calls = foldl apply_set st calls"

subsection \<open>Pagination handlers\<close>

definition handleChangePage :: "account_state \<Rightarrow> int \<Rightarrow> set_state list" where
  "handleChangePage st newPage =
     (if newPage > currentPage st \<and>
         rowsPerPage st * (currentPage st + 1) \<ge> tokenTransfersTotal st
      then []
      else [SetCurrentPage newPage])"

text \<open>The argument is the numeric value \<open>+event.target.value\<close> of the chosen option.\<close>

definition handleChangeRowsPerPage :: "account_state \<Rightarrow> int \<Rightarrow> set_state list" where
  "handleChangeRowsPerPage st v = [SetCurrentPage 0, SetRowsPerPage v]"

definition setPage :: "account_state \<Rightarrow> int \<Rightarrow> account_state" where
  "setPage st newPage = commit st (handleChangePage st newPage)"

definition setRowsPerPage :: "account_state \<Rightarrow> int \<Rightarrow> account_state" where
  "setRowsPerPage st v = commit st (handleChangeRowsPerPage st v)"

subsection \<open>The two effects\<close>

definition account_request :: "ambient \<Rightarrow> request" where
  "account_request a =
     \<lparr>path = ''/api/v1/namespaces/'' @ selectedNamespace a @ ''/tokens/accounts'',
      query = [(''poolprotocolid'', QStr (poolProtocolID a))]\<rparr>"

definition transfers_request :: "ambient \<Rightarrow> account_state \<Rightarrow> request" where
  "transfers_request a st =
     \<lparr>path = ''/api/v1/namespaces/'' @ selectedNamespace a @ ''/tokens/transfers'',
      query = [(''poolprotocolid'', QStr (poolProtocolID a)),
               (''limit'', QNum (rowsPerPage st)),
               (''skip'', QNum (rowsPerPage st * currentPage st)),
               (''count'', QFlag)]\<rparr>"

text \<open>The dependency lists: an effect runs after the first render and after every
  render in which one of its dependencies differs from the previous render.\<close>

definition account_deps :: "ambient \<Rightarrow> string \<times> string" where
  "account_deps a = (selectedNamespace a, poolProtocolID a)"

definition transfers_deps :: "ambient \<Rightarrow> account_state \<Rightarrow> int \<times> int \<times> string \<times> string" where
  "transfers_deps a st = (rowsPerPage st, currentPage st, selectedNamespace a, poolProtocolID a)"

definition transfers_effect_reruns :: "ambient \<Rightarrow> account_state \<Rightarrow> account_state \<Rightarrow> bool" where
  "transfers_effect_reruns a prev cur = (transfers_deps a prev \<noteq> transfers_deps a cur)"

text \<open>Element \<open>[0]\<close> of a JavaScript array: \<open>undefined\<close> when the array is empty.\<close>

definition first :: "'a list \<Rightarrow> 'a option" where
  "first xs = (case xs of [] \<Rightarrow> None | x # _ \<Rightarrow> Some x)"

text \<open>The account effect: the setter call before the request, the \<open>then\<close> callback
  (skipped when the promise rejects) and the \<open>finally\<close> callback.\<close>

definition account_effect_begin :: "set_state list" where
  "account_effect_begin = [SetLoading True]"

definition account_effect_then :: "ITokenAccount list response \<Rightarrow> set_state list" where
  "account_effect_then r = (if ok r then [SetTokenAccount (first (json r))] else [])"

definition account_effect_finally :: "set_state list" where
  "account_effect_finally = [SetLoading False]"

definition account_effect_settle :: "ITokenAccount list settled \<Rightarrow> set_state list" where
  "account_effect_settle out =
     (case out of Rejected \<Rightarrow> [] | Fulfilled r \<Rightarrow> account_effect_then r) @ account_effect_finally"

text \<open>The transfers effect makes no setter call before its request.\<close>

definition transfers_effect_begin :: "set_state list" where
  "transfers_effect_begin = []"

definition transfers_effect_then :: "transfers_body response \<Rightarrow> set_state list" where
  "transfers_effect_then r =
     (if ok r then [SetTokenTransfersTotal (total' (json r)), SetTokenTransfers (items (json r))]
      else [])"

definition transfers_effect_finally :: "set_state list" where
  "transfers_effect_finally = [SetLoading False]"

definition transfers_effect_settle :: "transfers_body settled \<Rightarrow> set_state list" where
  "transfers_effect_settle out =
     (case out of Rejected \<Rightarrow> [] | Fulfilled r \<Rightarrow> transfers_effect_then r) @ transfers_effect_finally"

subsection \<open>Table rows and rendering\<close>

text \<open>A string-or-undefined value is truthy when it is defined and not empty.\<close>

definition truthy :: "string option \<Rightarrow> bool" where
  "truthy v = (case v of None \<Rightarrow> False | Some s \<Rightarrow> s \<noteq> [])"

datatype icon = FireIcon | StamperIcon | SwapHorizontalIcon

text \<open>The own properties of the object literal \<open>transferIconMap\<close>.\<close>

definition transferIconMap :: "string \<rightharpoonup> icon" where
  "transferIconMap =
     [''burn'' \<mapsto> FireIcon, ''mint'' \<mapsto> StamperIcon, ''transfer'' \<mapsto> SwapHorizontalIcon]"

text \<open>
  A property read \<open>obj[k]\<close> on an object literal yields the own property named \<open>k\<close>
  when there is one; otherwise the lookup continues in the literal's prototype,
  \<open>Object.prototype\<close>, whose members are listed here, and yields \<open>undefined\<close> only when
  that has no such member either.
\<close>

definition Object_prototype :: "string list" where
  "Object_prototype =
     [''constructor'', ''hasOwnProperty'', ''isPrototypeOf'', ''propertyIsEnumerable'',
      ''toLocaleString'', ''toString'', ''valueOf'', ''__proto__'',
      ''__defineGetter__'', ''__defineSetter__'', ''__lookupGetter__'', ''__lookupSetter__'']"

datatype 'a property = Undefined | Own 'a | Inherited string

definition get_property :: "(string \<rightharpoonup> 'a) \<Rightarrow> string \<Rightarrow> 'a property" where
  "get_property obj k =
     (case obj k of
        Some v \<Rightarrow> Own v
      | None \<Rightarrow> if k \<in> set Object_prototype then Inherited k else Undefined)"

datatype cell =
    Text string
  | HashPopover string
  | IconWithHash "icon property" string

record IDataTableRecord =
  record_key :: string
  columns :: "cell list"

text \<open>\<open>t\<close> is the translation function and \<open>fmt\<close> stands for
  \<open>dayjs(_).format('MM/DD/YYYY h:mm A')\<close>.\<close>

definition address_cell :: "string option \<Rightarrow> cell" where
  "address_cell v = (case v of Some s \<Rightarrow> if s \<noteq> [] then HashPopover s else Text ''---''
                     | None \<Rightarrow> Text ''---'')"

definition tokenTransfersRecords ::
  "(string \<Rightarrow> string) \<Rightarrow> (string \<Rightarrow> string) \<Rightarrow> ITokenTransfer list \<Rightarrow> IDataTableRecord list" where
  "tokenTransfersRecords t fmt transfers =
     map (\<lambda>tokenTransfer.
            \<lparr>record_key = tx_id (tx tokenTransfer),
             columns =
               [IconWithHash (get_property transferIconMap (type tokenTransfer))
                             (tx_id (tx tokenTransfer)),
                Text (t (type tokenTransfer)),
                Text (amount tokenTransfer),
                address_cell (from' tokenTransfer),
                address_cell (to' tokenTransfer),
                Text (fmt (created tokenTransfer))]\<rparr>)
         transfers"

definition tokenTransfersColumnHeaders :: "(string \<Rightarrow> string) \<Rightarrow> string list" where
  "tokenTransfersColumnHeaders t =
     [t ''txHash'', t ''method'', t ''amount'', t ''from'', t ''to'', t ''timestamp'']"

record pagination =
  count :: int
  pg_rowsPerPage :: int
  page :: int
  rowsPerPageOptions :: "int list"

datatype history =
    DataTable string "string list" "IDataTableRecord list" pagination
  | DataTableEmptyState string

datatype account_view =
    Spinner
  | EmptyFragment
  | AccountPage "(string \<times> cell) list" history

definition detailsData ::
  "(string \<Rightarrow> string) \<Rightarrow> (string \<Rightarrow> string) \<Rightarrow> ITokenAccount \<Rightarrow> (string \<times> cell) list" where
  "detailsData t fmt acct =
     [(t ''poolProtocolID'', Text (t (poolProtocolId acct))),
      (t ''tokenIndex'',
         (case tokenIndex acct of
            Some i \<Rightarrow> if i \<noteq> [] then Text (t i) else Text ''---''
          | None \<Rightarrow> Text ''---'')),
      (t ''connector'', Text (connector acct)),
      (t ''key'', HashPopover (key acct)),
      (t ''balance'', Text (balance acct)),
      (t ''updated'', Text (fmt (updated acct)))]"

definition render ::
  "(string \<Rightarrow> string) \<Rightarrow> (string \<Rightarrow> string) \<Rightarrow> account_state \<Rightarrow> account_view" where
  "render t fmt st =
     (if loading st then Spinner
      else case tokenAccount st of
        None \<Rightarrow> EmptyFragment
      | Some acct \<Rightarrow>
          AccountPage (detailsData t fmt acct)
            (if length (tokenTransfers st) \<noteq> 0
             then DataTable (t ''transferHistory'') (tokenTransfersColumnHeaders t)
                    (tokenTransfersRecords t fmt (tokenTransfers st))
                    \<lparr>count = - 1, pg_rowsPerPage = rowsPerPage st, page = currentPage st,
                     rowsPerPageOptions = PAGE_LIMITS\<rparr>
             else DataTableEmptyState (t ''noTokenTransfersToDisplay'')))"

subsection \<open>The mounted component and its outstanding requests\<close>

text \<open>
  The component together with the number of requests of each effect that have been
  issued and have not settled yet. Mounting renders the initial state and then runs both
  effects. A handler's setter calls are committed, and the transfers effect runs again
  when one of its dependencies has changed.
\<close>

record mounted =
  view :: account_state
  accountOutstanding :: nat
  transfersOutstanding :: nat

datatype event =
    AccountSettles "ITokenAccount list settled"
  | TransfersSettles "transfers_body settled"
  | ChangePage int
  | ChangeRowsPerPage int

definition mount :: mounted where
  "mount =
     \<lparr>view = commit (commit initial_state account_effect_begin) transfers_effect_begin,
      accountOutstanding = 1, transfersOutstanding = 1\<rparr>"

definition after_handler :: "ambient \<Rightarrow> mounted \<Rightarrow> account_state \<Rightarrow> mounted" where
  "after_handler a m st =
     (if transfers_effect_reruns a (view m) st
      then m\<lparr>view := commit st transfers_effect_begin,
             transfersOutstanding := transfersOutstanding m + 1\<rparr>
      else m\<lparr>view := st\<rparr>)"

fun step :: "ambient \<Rightarrow> mounted \<Rightarrow> event \<Rightarrow> mounted" where
  "step a m (AccountSettles out) =
     (if accountOutstanding m = 0 then m
      else m\<lparr>view := commit (view m) (account_effect_settle out),
             accountOutstanding := accountOutstanding m - 1\<rparr>)"
| "step a m (TransfersSettles out) =
     (if transfersOutstanding m = 0 then m
      else m\<lparr>view := commit (view m) (transfers_effect_settle out),
             transfersOutstanding := transfersOutstanding m - 1\<rparr>)"
| "step a m (ChangePage newPage) = after_handler a m (setPage (view m) newPage)"
| "step a m (ChangeRowsPerPage v) = after_handler a m (setRowsPerPage (view m) v)"

section \<open>MessageDetails\<close>

record ITxRef =
  txtype :: string
  txid :: string

record IMessageHeader =
  header_id :: string
  author :: string
  msgtype :: string
  topic :: string
  context' :: string
  datahash :: string
  header_created :: string
  header_tx :: ITxRef

record IMessage =
  header :: IMessageHeader
  sequence :: int
  batchID :: string

text \<open>Of a batch only \<open>payload.tx.id\<close> is read.\<close>

record IBatch =
  payload_tx_id :: string

record message_props =
  message :: IMessage
  open' :: bool

record message_state =
  md_loading :: bool
  txId :: "string option"

definition message_initial_state :: message_state where
  "message_initial_state = \<lparr>md_loading = False, txId = None\<rparr>"

datatype message_set = MdSetLoading bool | MdSetTxId "string option"

fun message_apply :: "message_state \<Rightarrow> message_set \<Rightarrow> message_state" where
  "message_apply st (MdSetLoading b) = st\<lparr>md_loading := b\<rparr>"
| "message_apply st (MdSetTxId v) = st\<lparr>txId := v\<rparr>"

definition message_commit :: "message_state \<Rightarrow> message_set list \<Rightarrow> message_state" where
  "message_commit st calls = foldl message_apply st calls"

definition batch_request :: "string \<Rightarrow> message_props \<Rightarrow> request" where
  "batch_request ns p =
     \<lparr>path = ''/api/v1/namespaces/'' @ ns @ ''/batches/'' @ batchID (message p), query = []\<rparr>"

definition batch_effect_begin :: "message_set list" where
  "batch_effect_begin = [MdSetLoading True]"

definition batch_effect_settle :: "IBatch settled \<Rightarrow> message_set list" where
  "batch_effect_settle out =
     (case out of
        Rejected \<Rightarrow> []
      | Fulfilled r \<Rightarrow> if ok r then [MdSetTxId (Some (payload_tx_id (json r)))] else [])
     @ [MdSetLoading False]"

text \<open>The navigation a click on the button performs: \<open>history.push(route, {props})\<close>.\<close>

record navigation =
  route :: string
  nav_message :: IMessage
  nav_open :: bool

record view_button =
  button_label :: string
  on_click :: navigation

record pinned_view =
  pinned_text :: string
  pinned_action :: "view_button option"

definition pinned ::
  "(string \<Rightarrow> string) \<Rightarrow> message_props \<Rightarrow> string \<Rightarrow> string option \<Rightarrow> pinned_view" where
  "pinned t p txType txId' =
     \<lparr>pinned_text = (if txType = ''pin'' then t ''yes'' else t ''no''),
      pinned_action =
        (case txId' of
           None \<Rightarrow> None
         | Some i \<Rightarrow>
             if i \<noteq> []
             then Some \<lparr>button_label = t ''viewTx'',
                        on_click = \<lparr>route = ''/transactions/'' @ i,
                                    nav_message = message p, nav_open = open' p\<rparr>\<rparr>
             else None)\<rparr>"

datatype detail_value =
    DetailText string
  | DetailHash string
  | DetailPinned pinned_view
  | DetailCopyable string string

datatype message_view =
    MessageSpinner
  | DisplaySlide bool "(string \<times> detail_value) list"

definition message_render ::
  "(string \<Rightarrow> string) \<Rightarrow> (string \<Rightarrow> string) \<Rightarrow> message_props \<Rightarrow> message_state \<Rightarrow> message_view" where
  "message_render t fmt p st =
     (if md_loading st then MessageSpinner
      else DisplaySlide (open' p)
        [(t ''id'', DetailHash (header_id (header (message p)))),
         (t ''topic'', DetailText (topic (header (message p)))),
         (t ''type'', DetailText (msgtype (header (message p)))),
         (t ''context'', DetailText (context' (header (message p)))),
         (t ''author'', DetailHash (author (header (message p)))),
         (t ''createdOn'', DetailText (fmt (header_created (header (message p))))),
         (t ''pinned?'',
            DetailPinned (pinned t p (txtype (header_tx (header (message p)))) (txId st))),
         (t ''dataHash'', DetailCopyable (datahash (header (message p))) (t ''copy''))])"

section \<open>Dashboard\<close>

record ITransaction =
  transaction_id :: string
  transaction_sequence :: int
  transaction_created :: string

record dashboard_state =
  db_loading :: bool
  messages :: "IMessage list"
  txSequence :: "ITransaction list"
  transactions :: "ITransaction list"

definition dashboard_initial_state :: dashboard_state where
  "dashboard_initial_state =
     \<lparr>db_loading = False, messages = [], txSequence = [], transactions = []\<rparr>"

datatype dashboard_set =
    DbSetLoading bool
  | DbSetMessages "IMessage list"
  | DbSetTxSequence "ITransaction list"
  | DbSetTransactions "ITransaction list"

fun dashboard_apply :: "dashboard_state \<Rightarrow> dashboard_set \<Rightarrow> dashboard_state" where
  "dashboard_apply st (DbSetLoading b) = st\<lparr>db_loading := b\<rparr>"
| "dashboard_apply st (DbSetMessages ms) = st\<lparr>messages := ms\<rparr>"
| "dashboard_apply st (DbSetTxSequence ts) = st\<lparr>txSequence := ts\<rparr>"
| "dashboard_apply st (DbSetTransactions ts) = st\<lparr>transactions := ts\<rparr>"

definition dashboard_commit :: "dashboard_state \<Rightarrow> dashboard_set list \<Rightarrow> dashboard_state" where
  "dashboard_commit st calls = foldl dashboard_apply st calls"

text \<open>\<open>Promise.all\<close> of three promises rejects as soon as one of them rejects, and
  otherwise fulfils with the three values.\<close>

definition promise_all ::
  "'a settled \<Rightarrow> 'b settled \<Rightarrow> 'c settled \<Rightarrow> ('a response \<times> 'b response \<times> 'c response) option" where
  "promise_all x y z =
     (case (x, y, z) of
        (Fulfilled a, Fulfilled b, Fulfilled c) \<Rightarrow> Some (a, b, c)
      | _ \<Rightarrow> None)"

definition dashboard_effect_begin :: "dashboard_set list" where
  "dashboard_effect_begin = [DbSetLoading True]"

definition dashboard_effect_then ::
  "IMessage list response \<Rightarrow> ITransaction list response \<Rightarrow> ITransaction list response
     \<Rightarrow> dashboard_set list" where
  "dashboard_effect_then messageResponse txSequenceResponse txResponse =
     (if ok messageResponse \<and> ok txSequenceResponse \<and> ok txResponse
      then [DbSetMessages (json messageResponse),
            DbSetTransactions (json txResponse),
            DbSetTxSequence (json txSequenceResponse)]
      else [])"

definition dashboard_effect_settle ::
  "IMessage list settled \<Rightarrow> ITransaction list settled \<Rightarrow> ITransaction list settled
     \<Rightarrow> dashboard_set list" where
  "dashboard_effect_settle m s x =
     (case promise_all m s x of
        None \<Rightarrow> []
      | Some (messageResponse, txSequenceResponse, txResponse) \<Rightarrow>
          dashboard_effect_then messageResponse txSequenceResponse txResponse)
     @ [DbSetLoading False]"

subsection \<open>Numbers of the counter\<close>

text \<open>
  The counter is \<open>Math.floor(Math.random() * 1000)\<close>, computed on binary64 numbers.
  A finite binary64 number that is not negative is an integer mantissa below \<open>2^53\<close>
  scaled by a power of two whose exponent lies between \<open>- 1074\<close> and \<open>971\<close>.
  \<open>Math.random()\<close> returns such a number below 1.
\<close>

record binary64 =
  mantissa :: nat
  exponent :: int

definition valid64 :: "binary64 \<Rightarrow> bool" where
  "valid64 d = (mantissa d < 2 ^ 53 \<and> - 1074 \<le> exponent d \<and> exponent d \<le> 971)"

definition value64 :: "binary64 \<Rightarrow> real" where
  "value64 d = real (mantissa d) * 2 powi exponent d"

text \<open>The number of binary digits of a natural number.\<close>

fun bit_length :: "nat \<Rightarrow> nat" where
  "bit_length n = (if n = 0 then 0 else Suc (bit_length (n div 2)))"

declare bit_length.simps [simp del]

text \<open>\<open>p / 2^k\<close> rounded to the nearest integer, a tie going to the even one.\<close>

definition round_shift :: "nat \<Rightarrow> nat \<Rightarrow> nat" where
  "round_shift p k =
     (let q = p div 2 ^ k; r = p mod 2 ^ k
      in if 2 ^ k < 2 * r \<or> (2 * r = 2 ^ k \<and> odd q) then q + 1 else q)"

text \<open>
  The operator \<open>*\<close> on two such numbers: the exact product of the mantissas is rounded
  to 53 binary digits, to nearest with ties to even, and the exponent is never taken
  below \<open>- 1074\<close> (gradual underflow). A product of \<open>2^1024\<close> or more, which the code
  turns into \<open>Infinity\<close>, is outside this model; it does not occur when one factor is
  below 1 and the other is 1000.
\<close>

definition times64 :: "binary64 \<Rightarrow> binary64 \<Rightarrow> binary64" where
  "times64 a b =
     (let p = mantissa a * mantissa b;
          e = exponent a + exponent b;
          k = max (bit_length p - 53) (nat (- 1074 - e))
      in \<lparr>mantissa = round_shift p k, exponent = e + int k\<rparr>)"

text \<open>\<open>Math.floor\<close> of such a number.\<close>

definition floor64 :: "binary64 \<Rightarrow> int" where
  "floor64 d =
     (if 0 \<le> exponent d then int (mantissa d) * 2 ^ nat (exponent d)
      else int (mantissa d) div 2 ^ nat (- exponent d))"

text \<open>The literal \<open>1000\<close>.\<close>

definition thousand :: binary64 where
  "thousand = \<lparr>mantissa = 1000, exponent = 0\<rparr>"

text \<open>\<open>Math.floor(Math.random() * 1000)\<close>, as a function of the number \<open>r\<close> that
  \<open>Math.random()\<close> returned.\<close>

definition networkMembers :: "binary64 \<Rightarrow> int" where
  "networkMembers r = floor64 (times64 r thousand)"

subsection \<open>Rendering\<close>

definition summaryPanels ::
  "(string \<Rightarrow> string) \<Rightarrow> dashboard_state \<Rightarrow> binary64 \<Rightarrow> (string \<times> int) list" where
  "summaryPanels t st r =
     [(t ''networkMembers'', networkMembers r),
      (t ''messages'', (case messages st of [] \<Rightarrow> 0 | m # _ \<Rightarrow> sequence m)),
      (t ''transactions'', (case txSequence st of [] \<Rightarrow> 0 | x # _ \<Rightarrow> transaction_sequence x))]"

definition messageColumnHeaders :: "(string \<Rightarrow> string) \<Rightarrow> string list" where
  "messageColumnHeaders t = [t ''author'', t ''type'', t ''dataHash'', t ''createdOn'']"

definition messageRecords ::
  "(string \<Rightarrow> string) \<Rightarrow> IMessage list \<Rightarrow> IDataTableRecord list" where
  "messageRecords fmt ms =
     map (\<lambda>m. \<lparr>record_key = header_id (header m),
               columns = [HashPopover (author (header m)),
                          Text (msgtype (header m)),
                          HashPopover (datahash (header m)),
                          Text (fmt (header_created (header m)))]\<rparr>)
         ms"

datatype dashboard_view =
    DashboardSpinner
  | DashboardPage "(string \<times> int) list" "string list" "IDataTableRecord list" "ITransaction list"

text \<open>One render; \<open>r\<close> is what \<open>Math.random()\<close> returns during it.\<close>

definition dashboard_render ::
  "(string \<Rightarrow> string) \<Rightarrow> (string \<Rightarrow> string) \<Rightarrow> dashboard_state \<Rightarrow> binary64 \<Rightarrow> dashboard_view" where
  "dashboard_render t fmt st r =
     (if db_loading st then DashboardSpinner
      else DashboardPage (summaryPanels t st r) (messageColumnHeaders t)
             (messageRecords fmt (messages st)) (transactions st))"

section \<open>Committing setter calls\<close>

lemma commit_Nil: "commit st [] = st"
  by (simp add: commit_def)

lemma commit_Cons: "commit st (c # cs) = commit (apply_set st c) cs"
  by (simp add: commit_def)

lemma commit_append: "commit st (xs @ ys) = commit (commit st xs) ys"
  by (simp add: commit_def)

lemma message_commit_Nil: "message_commit st [] = st"
  by (simp add: message_commit_def)

lemma message_commit_Cons:
  "message_commit st (c # cs) = message_commit (message_apply st c) cs"
  by (simp add: message_commit_def)

lemma message_commit_append:
  "message_commit st (xs @ ys) = message_commit (message_commit st xs) ys"
  by (simp add: message_commit_def)

lemma dashboard_commit_Nil: "dashboard_commit st [] = st"
  by (simp add: dashboard_commit_def)

lemma dashboard_commit_Cons:
  "dashboard_commit st (c # cs) = dashboard_commit (dashboard_apply st c) cs"
  by (simp add: dashboard_commit_def)

lemma dashboard_commit_append:
  "dashboard_commit st (xs @ ys) = dashboard_commit (dashboard_commit st xs) ys"
  by (simp add: dashboard_commit_def)

section \<open>AccountDetails: pagination\<close>

text \<open>
  Claim C1. A page change to \<open>next\<close> is rejected (the handler makes no setter call and the
  state stays as it is) if and only if \<open>next > currentPage\<close> and
  \<open>rowsPerPage * (currentPage + 1) \<ge> totalCount\<close>; otherwise \<open>currentPage\<close> becomes
  \<open>next\<close>. With \<open>rowsPerPage = 5\<close>, \<open>currentPage = 0\<close> and \<open>totalCount = 7\<close> the change to
  page 1 is accepted, and then, on page 1, the change to page 2 is rejected.
\<close>

theorem setPage_guard:
  "(handleChangePage st next = []) =
     (next > currentPage st \<and> rowsPerPage st * (currentPage st + 1) \<ge> tokenTransfersTotal st)
   \<and> (handleChangePage st next = [] \<longrightarrow> setPage st next = st)
   \<and> (handleChangePage st next \<noteq> [] \<longrightarrow> setPage st next = st\<lparr>currentPage := next\<rparr>)
   \<and> rowsPerPage (initial_state\<lparr>tokenTransfersTotal := 7\<rparr>) = 5
   \<and> setPage (initial_state\<lparr>tokenTransfersTotal := 7\<rparr>) 1
       = initial_state\<lparr>tokenTransfersTotal := 7, currentPage := 1\<rparr>
   \<and> setPage (initial_state\<lparr>tokenTransfersTotal := 7, currentPage := 1\<rparr>) 2
       = initial_state\<lparr>tokenTransfersTotal := 7, currentPage := 1\<rparr>"
  by (simp add: handleChangePage_def setPage_def commit_Nil commit_Cons initial_state_def
      PAGE_LIMITS_def)

theorem setPage_guard_witness:
  "handleChangePage initial_state 1 = [] \<and> setPage initial_state 1 = initial_state
   \<and> handleChangePage initial_state 0 \<noteq> []
   \<and> setPage initial_state 0 = initial_state\<lparr>currentPage := 0\<rparr>"
  using setPage_guard [of initial_state 1] setPage_guard [of initial_state 0]
  by (simp add: initial_state_def PAGE_LIMITS_def)

text \<open>
  Claim C3. For every allowed page size \<open>n\<close>, choosing \<open>n\<close> sets \<open>currentPage\<close> to 0 and
  \<open>rowsPerPage\<close> to \<open>n\<close>, and the transfers request built from the new state has
  \<open>limit = n\<close> and \<open>skip = 0\<close>. The transfers effect runs again exactly when the choice
  changed one of the two values.
\<close>

theorem setRowsPerPage_resets:
  assumes "n \<in> set PAGE_LIMITS"
  shows "currentPage (setRowsPerPage st n) = 0
       \<and> rowsPerPage (setRowsPerPage st n) = n
       \<and> map_of (query (transfers_request a (setRowsPerPage st n))) ''limit'' = Some (QNum n)
       \<and> map_of (query (transfers_request a (setRowsPerPage st n))) ''skip'' = Some (QNum 0)
       \<and> transfers_effect_reruns a st (setRowsPerPage st n)
           = (rowsPerPage st \<noteq> n \<or> currentPage st \<noteq> 0)"
  by (auto simp add: setRowsPerPage_def handleChangeRowsPerPage_def commit_Nil commit_Cons
      transfers_request_def transfers_effect_reruns_def transfers_deps_def)

theorem setRowsPerPage_resets_witness:
  "(10::int) \<in> set PAGE_LIMITS
   \<and> currentPage (setRowsPerPage (initial_state\<lparr>currentPage := 3\<rparr>) 10) = 0
   \<and> rowsPerPage (setRowsPerPage (initial_state\<lparr>currentPage := 3\<rparr>) 10) = 10
   \<and> map_of (query (transfers_request \<lparr>selectedNamespace = ''default'', poolProtocolID = ''pool1''\<rparr>
          (setRowsPerPage (initial_state\<lparr>currentPage := 3\<rparr>) 10)))
        ''skip'' = Some (QNum 0)
   \<and> transfers_effect_reruns \<lparr>selectedNamespace = ''default'', poolProtocolID = ''pool1''\<rparr>
        (initial_state\<lparr>currentPage := 3\<rparr>)
        (setRowsPerPage (initial_state\<lparr>currentPage := 3\<rparr>) 10)"
proof -
  have h: "(10::int) \<in> set PAGE_LIMITS"
    by (simp add: PAGE_LIMITS_def)
  show ?thesis
    using h setRowsPerPage_resets [OF h, of "initial_state\<lparr>currentPage := 3\<rparr>"
        "\<lparr>selectedNamespace = ''default'', poolProtocolID = ''pool1''\<rparr>"]
    by (simp add: initial_state_def PAGE_LIMITS_def)
qed

text \<open>
  Claim C4. \<open>tokenTransfersTotal\<close> is initialised to 0, on page 0 with an allowed page
  size. While it is 0, every forward page change from a zero-based page index, with an
  allowed page size, is rejected: the handler makes no setter call, so the state, and
  with it \<open>currentPage\<close>, stays as it is.
\<close>

theorem forward_before_data:
  "tokenTransfersTotal initial_state = 0
   \<and> currentPage initial_state = 0
   \<and> rowsPerPage initial_state \<in> set PAGE_LIMITS
   \<and> (tokenTransfersTotal st = 0 \<and> 0 \<le> currentPage st \<and> rowsPerPage st \<in> set PAGE_LIMITS
        \<and> currentPage st < next \<longrightarrow>
        handleChangePage st next = [] \<and> setPage st next = st
        \<and> currentPage (setPage st next) = currentPage st)"
proof -
  have "0 \<le> rowsPerPage st * (currentPage st + 1)"
    if "rowsPerPage st \<in> set PAGE_LIMITS" "0 \<le> currentPage st"
    using that by (intro mult_nonneg_nonneg) (auto simp add: PAGE_LIMITS_def)
  then show ?thesis
    by (simp add: setPage_def handleChangePage_def commit_Nil initial_state_def PAGE_LIMITS_def)
qed

theorem forward_before_data_witness:
  "tokenTransfersTotal initial_state = 0 \<and> 0 \<le> currentPage initial_state
   \<and> rowsPerPage initial_state \<in> set PAGE_LIMITS \<and> currentPage initial_state < 1
   \<and> handleChangePage initial_state 1 = [] \<and> setPage initial_state 1 = initial_state
   \<and> currentPage (setPage initial_state 1) = 0"
  using forward_before_data [of initial_state 1]
  by (simp add: initial_state_def PAGE_LIMITS_def)

text \<open>
  Claim C10. The handler has no lower bound: every change to a page \<open>next \<le> currentPage\<close>
  is accepted, negative targets included, and sets \<open>currentPage\<close> to \<open>next\<close>. The transfers
  effect then runs again whenever the page index changed, and for a negative \<open>next\<close> and
  a positive page size the request of the new state carries the negative
  \<open>skip = rowsPerPage * next\<close>.
\<close>

theorem no_lower_bound:
  assumes "next \<le> currentPage st"
  shows "handleChangePage st next = [SetCurrentPage next]
       \<and> currentPage (setPage st next) = next
       \<and> transfers_effect_reruns a st (setPage st next) = (next \<noteq> currentPage st)
       \<and> (next < 0 \<and> 0 < rowsPerPage st \<longrightarrow>
            map_of (query (transfers_request a (setPage st next))) ''skip''
              = Some (QNum (rowsPerPage st * next))
            \<and> rowsPerPage st * next < 0)"
  using assms
  by (auto simp add: setPage_def handleChangePage_def commit_Nil commit_Cons
      transfers_effect_reruns_def transfers_deps_def transfers_request_def mult_pos_neg)

theorem no_lower_bound_witness:
  "- 1 \<le> currentPage initial_state
   \<and> handleChangePage initial_state (- 1) = [SetCurrentPage (- 1)]
   \<and> currentPage (setPage initial_state (- 1)) = - 1
   \<and> transfers_effect_reruns \<lparr>selectedNamespace = ''default'', poolProtocolID = ''pool1''\<rparr>
        initial_state (setPage initial_state (- 1))
   \<and> 0 < rowsPerPage initial_state
   \<and> map_of (query (transfers_request \<lparr>selectedNamespace = ''default'', poolProtocolID = ''pool1''\<rparr>
          (setPage initial_state (- 1)))) ''skip''
        = Some (QNum (- 5))"
  using no_lower_bound [of "- 1" initial_state
      "\<lparr>selectedNamespace = ''default'', poolProtocolID = ''pool1''\<rparr>"]
  by (simp add: initial_state_def PAGE_LIMITS_def)

section \<open>AccountDetails: loading flag and rendering\<close>

text \<open>
  Claim C5. Both effects write the one \<open>loading\<close> cell. Only the account effect sets it
  to true, before its request; the transfers effect makes no such call, neither before
  its request nor when it settles. When the transfers request settles, with whatever
  outcome, the flag is false afterwards, also while the account request is still
  outstanding: after mounting the flag is true with one account request outstanding,
  and the transfers request settling first clears the flag and leaves the account
  request outstanding.
\<close>

theorem shared_loading_flag:
  "account_effect_begin = [SetLoading True]
   \<and> SetLoading True \<notin> set (transfers_effect_begin @ transfers_effect_settle out)
   \<and> loading (commit st (transfers_effect_settle out)) = False
   \<and> loading (commit st (account_effect_settle out')) = False
   \<and> loading (view mount) = True
   \<and> accountOutstanding mount = 1
   \<and> loading (view (step a mount (TransfersSettles out))) = False
   \<and> accountOutstanding (step a mount (TransfersSettles out)) = 1"
  by (cases out; cases out')
     (simp_all add: account_effect_begin_def transfers_effect_begin_def
      transfers_effect_settle_def transfers_effect_then_def transfers_effect_finally_def
      account_effect_settle_def account_effect_then_def account_effect_finally_def
      commit_Nil commit_Cons commit_append mount_def)

text \<open>
  Claim C7. When the account request succeeds with an empty list, \<open>tokenAccount\<close> is
  undefined afterwards, whatever it was, and the view renders the empty fragment: no
  spinner, no placeholder and no message. This is also what the mounted component shows
  when that response arrives first.
\<close>

theorem absent_account_blank:
  "tokenAccount (commit st (account_effect_settle (Fulfilled (Response True [])))) = None
   \<and> render t fmt (commit st (account_effect_settle (Fulfilled (Response True []))))
       = EmptyFragment
   \<and> render t fmt (view (step a mount (AccountSettles (Fulfilled (Response True [])))))
       = EmptyFragment"
  by (simp add: account_effect_settle_def account_effect_then_def account_effect_finally_def
      commit_Nil commit_Cons first_def render_def mount_def account_effect_begin_def
      transfers_effect_begin_def initial_state_def)

text \<open>
  Claim C8, as stated, fails: a type that is none of the three keys but names a member of
  \<open>Object.prototype\<close>, such as \<open>constructor\<close>, does not read as \<open>undefined\<close>; the lookup
  yields the inherited member.
\<close>

theorem transferIconMap_inherited_counterexample:
  "''constructor'' \<notin> {''mint'', ''burn'', ''transfer''}
   \<and> get_property transferIconMap ''constructor'' = Inherited ''constructor''
   \<and> get_property transferIconMap ''constructor'' \<noteq> Undefined"
  by (simp add: get_property_def transferIconMap_def Object_prototype_def)

text \<open>
  Claim C8, amended. For every transfer type that is none of the keys \<open>mint\<close>, \<open>burn\<close>,
  \<open>transfer\<close> and does not name a member of \<open>Object.prototype\<close>, the lookup yields
  \<open>undefined\<close>, and for no type outside the three keys does it yield an icon of the map;
  for each of the three keys it yields the icon bound to that key. The first cell of
  every row holds the result of that lookup as it is: there is no fallback.
\<close>

theorem transferIconMap_lookup:
  "(ty \<notin> {''mint'', ''burn'', ''transfer''} \<and> ty \<notin> set Object_prototype \<longrightarrow>
      get_property transferIconMap ty = Undefined)
   \<and> (ty \<notin> {''mint'', ''burn'', ''transfer''} \<longrightarrow>
        (\<forall>i. get_property transferIconMap ty \<noteq> Own i))
   \<and> get_property transferIconMap ''mint'' = Own StamperIcon
   \<and> get_property transferIconMap ''burn'' = Own FireIcon
   \<and> get_property transferIconMap ''transfer'' = Own SwapHorizontalIcon
   \<and> map (\<lambda>r. columns r ! 0) (tokenTransfersRecords t fmt transfers)
       = map (\<lambda>x. IconWithHash (get_property transferIconMap (type x)) (tx_id (tx x))) transfers"
  by (auto simp add: get_property_def transferIconMap_def tokenTransfersRecords_def)

theorem transferIconMap_lookup_witness:
  "''approval'' \<notin> {''mint'', ''burn'', ''transfer''} \<and> ''approval'' \<notin> set Object_prototype
   \<and> get_property transferIconMap ''approval'' = Undefined"
  using transferIconMap_lookup [of "''approval''"]
  by (simp add: Object_prototype_def)

section \<open>MessageDetails\<close>

text \<open>
  Claim C6. The pinned indicator shows the translation of \<open>yes\<close> when the transaction type
  is the string \<open>pin\<close> and the translation of \<open>no\<close> otherwise. The button that navigates to
  \<open>/transactions/<id>\<close>, with the message and the open flag as payload, is present exactly
  when the resolved transaction id is truthy (defined and not empty). A message of type
  \<open>pin\<close> with no transaction id shows \<open>yes\<close> and no button; the id stays undefined when
  the batch request rejects or answers with a status that is not 2xx. Once loading is
  over, the panel's pinned entry is that indicator for the message's transaction type
  and the resolved id.
\<close>

theorem pinned_indicator:
  "pinned_text (pinned t p txType i) = (if txType = ''pin'' then t ''yes'' else t ''no'')
   \<and> (pinned_action (pinned t p txType i) \<noteq> None) = truthy i
   \<and> (i = Some s \<and> s \<noteq> [] \<longrightarrow>
        pinned_action (pinned t p txType i)
          = Some \<lparr>button_label = t ''viewTx'',
                  on_click = \<lparr>route = ''/transactions/'' @ s, nav_message = message p,
                              nav_open = open' p\<rparr>\<rparr>)
   \<and> pinned t p ''pin'' None = \<lparr>pinned_text = t ''yes'', pinned_action = None\<rparr>
   \<and> (\<not> md_loading st \<longrightarrow>
        (\<exists>details.
           message_render t fmt p st = DisplaySlide (open' p) details
           \<and> details ! 6
               = (t ''pinned?'',
                  DetailPinned (pinned t p (txtype (header_tx (header (message p)))) (txId st)))))
   \<and> message_commit (message_commit message_initial_state batch_effect_begin)
        (batch_effect_settle Rejected) = \<lparr>md_loading = False, txId = None\<rparr>
   \<and> message_commit (message_commit message_initial_state batch_effect_begin)
        (batch_effect_settle (Fulfilled (Response False b))) = \<lparr>md_loading = False, txId = None\<rparr>"
  by (cases i)
     (simp_all add: pinned_def truthy_def message_render_def batch_effect_settle_def
      batch_effect_begin_def message_commit_Nil message_commit_Cons message_commit_append
      message_initial_state_def)

theorem pinned_indicator_witness:
  "pinned_action (pinned id
        \<lparr>message = \<lparr>header = \<lparr>header_id = ''m1'', author = ''a'', msgtype = ''broadcast'',
            topic = ''t'', context' = ''c'', datahash = ''h'', header_created = ''2021'',
            header_tx = \<lparr>txtype = ''pin'', txid = ''x''\<rparr>\<rparr>, sequence = 1, batchID = ''b''\<rparr>,
          open' = True\<rparr>
        ''pin'' (Some ''tx1''))
     = Some \<lparr>button_label = ''viewTx'',
             on_click = \<lparr>route = ''/transactions/tx1'',
               nav_message = \<lparr>header = \<lparr>header_id = ''m1'', author = ''a'',
                 msgtype = ''broadcast'', topic = ''t'', context' = ''c'', datahash = ''h'',
                 header_created = ''2021'', header_tx = \<lparr>txtype = ''pin'', txid = ''x''\<rparr>\<rparr>,
                 sequence = 1, batchID = ''b''\<rparr>,
               nav_open = True\<rparr>\<rparr>
   \<and> \<not> md_loading \<lparr>md_loading = False, txId = None\<rparr>
   \<and> message_render id id
        \<lparr>message = \<lparr>header = \<lparr>header_id = ''m1'', author = ''a'', msgtype = ''broadcast'',
            topic = ''t'', context' = ''c'', datahash = ''h'', header_created = ''2021'',
            header_tx = \<lparr>txtype = ''pin'', txid = ''x''\<rparr>\<rparr>, sequence = 1, batchID = ''b''\<rparr>,
          open' = True\<rparr>
        \<lparr>md_loading = False, txId = None\<rparr>
      = DisplaySlide True
          [(''id'', DetailHash ''m1''), (''topic'', DetailText ''t''),
           (''type'', DetailText ''broadcast''), (''context'', DetailText ''c''),
           (''author'', DetailHash ''a''), (''createdOn'', DetailText ''2021''),
           (''pinned?'', DetailPinned \<lparr>pinned_text = ''yes'', pinned_action = None\<rparr>),
           (''dataHash'', DetailCopyable ''h'' ''copy'')]"
  using pinned_indicator [of id
      "\<lparr>message = \<lparr>header = \<lparr>header_id = ''m1'', author = ''a'', msgtype = ''broadcast'',
            topic = ''t'', context' = ''c'', datahash = ''h'', header_created = ''2021'',
            header_tx = \<lparr>txtype = ''pin'', txid = ''x''\<rparr>\<rparr>, sequence = 1, batchID = ''b''\<rparr>,
          open' = True\<rparr>"
      "''pin''" "Some ''tx1''" "''tx1''" "\<lparr>md_loading = False, txId = None\<rparr>" id]
    pinned_indicator [of id
      "\<lparr>message = \<lparr>header = \<lparr>header_id = ''m1'', author = ''a'', msgtype = ''broadcast'',
            topic = ''t'', context' = ''c'', datahash = ''h'', header_created = ''2021'',
            header_tx = \<lparr>txtype = ''pin'', txid = ''x''\<rparr>\<rparr>, sequence = 1, batchID = ''b''\<rparr>,
          open' = True\<rparr>"
      "''pin''" None "''''" "\<lparr>md_loading = False, txId = None\<rparr>" id]
  by (simp add: message_render_def)

section \<open>Dashboard\<close>

text \<open>
  Claim C2, as stated, fails: when the message request and the recent-transactions
  request succeed and only the sequence probe answers with a status that is not 2xx,
  the messages that arrived are not stored; the list of messages stays empty.
\<close>

theorem dashboard_partial_failure_counterexample:
  "ok (Response True [\<lparr>header = \<lparr>header_id = ''m1'', author = ''a'', msgtype = ''broadcast'',
          topic = ''t'', context' = ''c'', datahash = ''h'', header_created = ''2021'',
          header_tx = \<lparr>txtype = ''pin'', txid = ''x''\<rparr>\<rparr>, sequence = 1, batchID = ''b''\<rparr>])
   \<and> \<not> ok (Response False ([] :: ITransaction list))
   \<and> messages (dashboard_commit (dashboard_commit dashboard_initial_state dashboard_effect_begin)
        (dashboard_effect_settle
          (Fulfilled (Response True [\<lparr>header = \<lparr>header_id = ''m1'', author = ''a'',
             msgtype = ''broadcast'', topic = ''t'', context' = ''c'', datahash = ''h'',
             header_created = ''2021'', header_tx = \<lparr>txtype = ''pin'', txid = ''x''\<rparr>\<rparr>,
             sequence = 1, batchID = ''b''\<rparr>]))
          (Fulfilled (Response False []))
          (Fulfilled (Response True []))))
     = []"
  by (simp add: dashboard_effect_settle_def dashboard_effect_then_def promise_all_def
      dashboard_effect_begin_def dashboard_commit_Nil dashboard_commit_Cons
      dashboard_initial_state_def)

text \<open>
  Claim C2, amended. When the three requests have settled the loading flag is false, with
  every outcome. When one of the requests rejects, or at least one response has a status that is not 2xx, none of the
  three lists is stored: the state is the one before, with the flag cleared. Only when
  all three responses are 2xx are the three lists stored, each from its own response.
\<close>

theorem dashboard_all_or_nothing:
  "db_loading (dashboard_commit st (dashboard_effect_settle m s x)) = False
   \<and> (promise_all m s x = None \<longrightarrow>
        dashboard_commit st (dashboard_effect_settle m s x) = st\<lparr>db_loading := False\<rparr>)
   \<and> (\<not> (ok rm \<and> ok rs \<and> ok rx) \<longrightarrow>
        dashboard_commit st (dashboard_effect_settle (Fulfilled rm) (Fulfilled rs) (Fulfilled rx))
          = st\<lparr>db_loading := False\<rparr>)
   \<and> (ok rm \<and> ok rs \<and> ok rx \<longrightarrow>
        dashboard_commit st (dashboard_effect_settle (Fulfilled rm) (Fulfilled rs) (Fulfilled rx))
          = st\<lparr>db_loading := False, messages := json rm, txSequence := json rs,
               transactions := json rx\<rparr>)"
proof -
  have "db_loading (dashboard_commit st (dashboard_effect_settle m s x)) = False"
    by (cases m; cases s; cases x)
       (simp_all add: dashboard_effect_settle_def dashboard_effect_then_def promise_all_def
        dashboard_commit_Nil dashboard_commit_Cons dashboard_commit_append)
  then show ?thesis
    by (simp add: dashboard_effect_settle_def dashboard_effect_then_def promise_all_def
        dashboard_commit_Nil dashboard_commit_Cons)
qed

theorem dashboard_all_or_nothing_witness:
  "\<not> (ok (Response True ([] :: IMessage list)) \<and> ok (Response False ([] :: ITransaction list))
        \<and> ok (Response True ([] :: ITransaction list)))
   \<and> dashboard_commit (dashboard_commit dashboard_initial_state dashboard_effect_begin)
        (dashboard_effect_settle (Fulfilled (Response True [])) (Fulfilled (Response False []))
           (Fulfilled (Response True [])))
      = dashboard_initial_state
   \<and> ok (Response True ([] :: IMessage list)) \<and> ok (Response True ([] :: ITransaction list))
   \<and> txSequence (dashboard_commit dashboard_initial_state
        (dashboard_effect_settle (Fulfilled (Response True []))
           (Fulfilled (Response True [\<lparr>transaction_id = ''x'', transaction_sequence = 4,
              transaction_created = ''2021''\<rparr>]))
           (Fulfilled (Response True []))))
      = [\<lparr>transaction_id = ''x'', transaction_sequence = 4, transaction_created = ''2021''\<rparr>]"
  using dashboard_all_or_nothing [of "dashboard_commit dashboard_initial_state dashboard_effect_begin"
      Rejected Rejected Rejected "Response True []" "Response False []" "Response True []"]
    dashboard_all_or_nothing [of dashboard_initial_state
      Rejected Rejected Rejected "Response True []"
      "Response True [\<lparr>transaction_id = ''x'', transaction_sequence = 4,
              transaction_created = ''2021''\<rparr>]" "Response True []"]
  by (simp add: dashboard_initial_state_def dashboard_effect_begin_def dashboard_commit_Nil
      dashboard_commit_Cons)

section \<open>Dashboard: the network-members counter\<close>

lemma bit_length_bounds: "0 < n \<Longrightarrow> 2 ^ (bit_length n - 1) \<le> n \<and> n < 2 ^ bit_length n"
proof (induction n rule: bit_length.induct)
  case (1 n)
  show ?case
  proof (cases "n div 2 = 0")
    case True
    with "1.prems" have "n = 1" by (simp add: div_eq_0_iff)
    then show ?thesis by (simp add: bit_length.simps)
  next
    case False
    then have pos: "0 < n div 2" by simp
    from "1.prems" have n0: "n \<noteq> 0" by simp
    have IH: "2 ^ (bit_length (n div 2) - 1) \<le> n div 2 \<and> n div 2 < 2 ^ bit_length (n div 2)"
      using "1.IH" [OF n0 pos] .
    have bl: "bit_length n = Suc (bit_length (n div 2))"
      using n0 by (subst bit_length.simps) simp
    have blpos: "0 < bit_length (n div 2)"
      using pos by (subst bit_length.simps) simp
    then obtain j where j: "bit_length (n div 2) = Suc j"
      by (cases "bit_length (n div 2)") auto
    from IH j have "2 ^ j \<le> n div 2" "n div 2 < 2 * 2 ^ j" by simp_all
    then have "2 * 2 ^ j \<le> n" "n < 2 * (2 * 2 ^ j)" by linarith+
    then show ?thesis by (simp add: bl j)
  qed
qed

lemma round_shift_0: "round_shift p 0 = p"
  by (simp add: round_shift_def)

lemma round_shift_le: "round_shift p k \<le> p div 2 ^ k + 1"
  by (simp add: round_shift_def Let_def)

text \<open>Rounding moves the quotient by at most one half.\<close>

lemma round_shift_error:
  "2 * \<bar>int (round_shift p k) * 2 ^ k - int p\<bar> \<le> 2 ^ k"
proof -
  define d :: int where "d = 2 ^ k"
  define q where "q = int p div d"
  define r where "r = int p mod d"
  have dpos: "0 < d" by (simp add: d_def)
  have p: "int p = q * d + r" by (simp add: q_def r_def)
  have r: "0 \<le> r" "r < d" using dpos by (simp_all add: r_def)
  have qn: "int (p div 2 ^ k) = q" by (simp add: q_def d_def zdiv_int)
  have rn: "int (p mod 2 ^ k) = r" by (simp add: r_def d_def zmod_int)
  have up: "(2 ^ k < 2 * (p mod 2 ^ k)) = (d < 2 * r)"
  proof -
    have "(d < 2 * r) = (int (2 ^ k) < int (2 * (p mod 2 ^ k)))"
      by (simp add: d_def rn [symmetric])
    also have "\<dots> = (2 ^ k < 2 * (p mod 2 ^ k))"
      by (rule of_nat_less_iff)
    finally show ?thesis by simp
  qed
  show ?thesis
  proof (cases "2 ^ k < 2 * (p mod 2 ^ k) \<or> (2 * (p mod 2 ^ k) = 2 ^ k \<and> odd (p div 2 ^ k))")
    case True
    then have "int (round_shift p k) = q + 1"
      by (simp add: round_shift_def Let_def qn [symmetric])
    moreover from True have "d \<le> 2 * r"
    proof
      assume "2 ^ k < 2 * (p mod 2 ^ k)"
      then show ?thesis using up by simp
    next
      assume "2 * (p mod 2 ^ k) = 2 ^ k \<and> odd (p div 2 ^ k)"
      then have "int (2 * (p mod 2 ^ k)) = int (2 ^ k)" by simp
      then show ?thesis by (simp add: d_def rn [symmetric])
    qed
    ultimately show ?thesis
      using r p by (simp add: d_def [symmetric] algebra_simps)
  next
    case False
    then have "int (round_shift p k) = q"
      by (simp add: round_shift_def Let_def qn [symmetric])
    moreover from False have "2 * r \<le> d" using up by auto
    ultimately show ?thesis
      using r p by (simp add: d_def [symmetric] algebra_simps)
  qed
qed

lemma floor64_eq: "floor64 d = \<lfloor>value64 d\<rfloor>"
proof (cases "0 \<le> exponent d")
  case True
  then have "value64 d = of_int (int (mantissa d) * 2 ^ nat (exponent d))"
    by (simp add: value64_def power_int_nonneg_exp)
  then show ?thesis using True by (simp add: floor64_def del: of_int_mult of_int_power)
next
  case False
  then have "2 powi exponent d = inverse ((2::real) ^ nat (- exponent d))"
    by (simp add: power_int_def power_one_over inverse_eq_divide)
  then have "value64 d = real (mantissa d) / real (2 ^ nat (- exponent d))"
    by (simp add: value64_def divide_inverse)
  then have "\<lfloor>value64 d\<rfloor> = int (mantissa d div 2 ^ nat (- exponent d))"
    by (simp only: floor_divide_of_nat_eq)
  then show ?thesis using False by (simp add: floor64_def zdiv_int)
qed

lemma times_thousand:
  assumes "valid64 r"
  shows "times64 r thousand =
     \<lparr>mantissa = round_shift (mantissa r * 1000) (bit_length (mantissa r * 1000) - 53),
      exponent = exponent r + int (bit_length (mantissa r * 1000) - 53)\<rparr>"
proof -
  have "nat (- 1074 - exponent r) = 0"
    using assms by (simp add: valid64_def)
  then show ?thesis
    by (simp add: times64_def thousand_def Let_def)
qed

text \<open>The rounded product has at most 53 binary digits, or is \<open>2^53\<close>.\<close>

lemma times_thousand_digits:
  assumes "valid64 r"
  shows "mantissa (times64 r thousand) \<le> 2 ^ 53"
proof -
  define p where "p = mantissa r * 1000"
  define k where "k = bit_length p - 53"
  have "p < 2 ^ (53 + k)"
  proof (cases "p = 0")
    case True
    then show ?thesis by simp
  next
    case False
    then have "p < 2 ^ bit_length p" using bit_length_bounds [of p] by simp
    also have "(2::nat) ^ bit_length p \<le> 2 ^ (53 + k)"
      by (intro power_increasing) (simp_all add: k_def)
    finally show ?thesis .
  qed
  then have "p < 2 ^ 53 * 2 ^ k" by (simp add: power_add)
  then have "p div 2 ^ k < 2 ^ 53" by (rule less_mult_imp_div_less)
  then have "round_shift p k \<le> 2 ^ 53"
    using round_shift_le [of p k] by linarith
  then show ?thesis
    by (simp add: times_thousand [OF assms] p_def k_def)
qed

text \<open>The rounded product is within the relative distance \<open>2^-53\<close> of the exact one.\<close>

lemma times_thousand_error:
  assumes "valid64 r"
  shows "\<bar>value64 (times64 r thousand) - value64 r * 1000\<bar> \<le> value64 r * 1000 / 2 ^ 53"
proof -
  define p where "p = mantissa r * 1000"
  define k where "k = bit_length p - 53"
  define q where "q = round_shift p k"
  define s :: real where "s = 2 powi exponent r"
  have spos: "0 < s" by (simp add: s_def)
  have res: "value64 (times64 r thousand) = real q * 2 ^ k * s"
    by (simp add: times_thousand [OF assms] value64_def p_def k_def q_def s_def
        power_int_add algebra_simps)
  have exact: "value64 r * 1000 = real p * s"
    by (simp add: value64_def p_def s_def)
  have err: "\<bar>real q * 2 ^ k - real p\<bar> \<le> real p / 2 ^ 53"
  proof (cases "k = 0")
    case True
    then show ?thesis by (simp add: q_def round_shift_0)
  next
    case False
    then have bl: "bit_length p = 53 + k" by (simp add: k_def)
    then have "0 < p" by (cases "p = 0") (simp_all add: bit_length.simps)
    from bit_length_bounds [OF this] bl have "2 ^ (52 + k) \<le> p" by simp
    then have "real (2 ^ (52 + k)) \<le> real p"
      by (rule of_nat_le_iff [THEN iffD2])
    then have low: "(2::real) ^ k / 2 \<le> real p / 2 ^ 53"
      by (simp add: power_add field_simps)
    have "2 * \<bar>int q * 2 ^ k - int p\<bar> \<le> 2 ^ k"
      unfolding q_def by (rule round_shift_error)
    then have "real_of_int (2 * \<bar>int q * 2 ^ k - int p\<bar>) \<le> real_of_int (2 ^ k)"
      by (rule of_int_le_iff [THEN iffD2])
    then have "2 * \<bar>real q * 2 ^ k - real p\<bar> \<le> 2 ^ k"
      by simp
    then have "\<bar>real q * 2 ^ k - real p\<bar> \<le> 2 ^ k / 2"
      by simp
    then show ?thesis using low by (rule order_trans)
  qed
  have "\<bar>value64 (times64 r thousand) - value64 r * 1000\<bar> = \<bar>real q * 2 ^ k - real p\<bar> * s"
    using spos by (simp add: res exact abs_mult flip: left_diff_distrib)
  also have "\<dots> \<le> real p / 2 ^ 53 * s"
    using err spos by (simp add: mult_right_mono)
  finally show ?thesis by (simp add: exact)
qed

text \<open>A binary64 number below 1 is at most \<open>1 - 2^-53\<close>.\<close>

lemma below_one:
  assumes "valid64 r" "value64 r < 1"
  shows "value64 r \<le> 1 - 1 / 2 ^ 53"
proof (cases "- 53 \<le> exponent r")
  case True
  define n where "n = nat (exponent r + 53)"
  have e: "exponent r = int n - 53" using True by (simp add: n_def)
  have v: "value64 r = real (mantissa r * 2 ^ n) / 2 ^ 53"
    by (simp add: value64_def e power_int_diff power_int_add)
  with assms(2) have "real (mantissa r * 2 ^ n) < real (2 ^ 53)" by (simp add: field_simps)
  then have "mantissa r * 2 ^ n < 2 ^ 53"
    by (rule of_nat_less_iff [THEN iffD1])
  then have "mantissa r * 2 ^ n + 1 \<le> 2 ^ 53" by simp
  then have "real (mantissa r * 2 ^ n + 1) \<le> real (2 ^ 53)"
    by (rule of_nat_le_iff [THEN iffD2])
  then show ?thesis unfolding v by (simp add: field_simps)
next
  case False
  then have "exponent r \<le> - 54" by simp
  then have "(2::real) powi exponent r \<le> 2 powi (- 54)"
    by (intro power_int_increasing) simp_all
  moreover have "real (mantissa r) \<le> 2 ^ 53"
    using assms(1) by (simp add: valid64_def)
  ultimately have "value64 r \<le> 2 ^ 53 * 2 powi (- 54)"
    unfolding value64_def by (intro mult_mono) simp_all
  also have "\<dots> \<le> 1 - 1 / 2 ^ 53" by (simp add: power_int_minus)
  finally show ?thesis .
qed

lemma product_below_thousand:
  assumes "valid64 r" "value64 r < 1"
  shows "value64 (times64 r thousand) < 1000"
proof -
  have nn: "0 \<le> value64 r" by (simp add: value64_def)
  have "value64 (times64 r thousand) \<le> value64 r * 1000 + value64 r * 1000 / 2 ^ 53"
    using times_thousand_error [OF assms(1)] by linarith
  also have "\<dots> = value64 r * (1000 * (1 + 1 / 2 ^ 53))" by (simp add: algebra_simps)
  also have "\<dots> \<le> (1 - 1 / 2 ^ 53) * (1000 * (1 + 1 / 2 ^ 53))"
    using below_one [OF assms] by (intro mult_right_mono) simp_all
  also have "\<dots> < 1000" by simp
  finally show ?thesis .
qed

lemma counter_range:
  assumes "valid64 r" "value64 r < 1"
  shows "0 \<le> networkMembers r \<and> networkMembers r \<le> 999"
proof -
  have "0 \<le> value64 (times64 r thousand)" by (simp add: value64_def)
  then have "0 \<le> \<lfloor>value64 (times64 r thousand)\<rfloor>" by simp
  moreover have "\<lfloor>value64 (times64 r thousand)\<rfloor> < 1000"
    using product_below_thousand [OF assms] by (simp add: floor_less_iff)
  ultimately show ?thesis by (simp add: networkMembers_def floor64_eq)
qed

text \<open>The counter at four numbers that \<open>Math.random()\<close> can return: 0, one half,
  \<open>0.11699999999999999\<close> (where the exact product lies below 117 and the rounded one is
  117) and \<open>1 - 2^-53\<close>, the largest one.\<close>

lemma bit_length_values:
  "bit_length 0 = 0"
  "bit_length 1000 = 10"
  "bit_length 131730289100587000 = 57"
  "bit_length 9007199254740991000 = 63"
  by (simp_all add: bit_length.simps)

lemma round_shift_values:
  "round_shift 131730289100587000 4 = 8233143068786688"
  "round_shift 9007199254740991000 10 = 8796093022207999"
  by (simp_all add: round_shift_def Let_def)

lemma counter_at_zero: "networkMembers \<lparr>mantissa = 0, exponent = 0\<rparr> = 0"
  by (simp add: networkMembers_def times64_def thousand_def bit_length_values round_shift_0
      floor64_def)

lemma counter_at_half: "networkMembers \<lparr>mantissa = 1, exponent = - 1\<rparr> = 500"
  by (simp add: networkMembers_def times64_def thousand_def bit_length_values round_shift_0
      floor64_def)

lemma counter_at_tie:
  "networkMembers \<lparr>mantissa = 131730289100587, exponent = - 50\<rparr> = 117"
  by (simp add: networkMembers_def times64_def thousand_def bit_length_values
      round_shift_values floor64_def)

lemma counter_at_largest:
  "networkMembers \<lparr>mantissa = 9007199254740991, exponent = - 53\<rparr> = 999"
  by (simp add: networkMembers_def times64_def thousand_def bit_length_values
      round_shift_values floor64_def)

text \<open>
  Claim C9. The network-members counter is the floor of the binary64 product of the
  number \<open>r\<close> that \<open>Math.random()\<close> returned and 1000: that product has at most 53
  binary digits and lies within the relative distance \<open>2^-53\<close> of the exact product. For
  every binary64 number \<open>r\<close> with \<open>0 \<le> r < 1\<close> the counter is an integer from 0 to 999.
  It is a function of \<open>r\<close> alone: the first summary panel is the same for any two
  states. Two renders of one state may differ: with \<open>r = 0\<close> the counter is 0 and with
  \<open>r = 1/2\<close> it is 500, so the rendered page is not a function of the fetched data.
\<close>

theorem networkMembers_random:
  "networkMembers r = \<lfloor>value64 (times64 r thousand)\<rfloor>
   \<and> (valid64 r \<longrightarrow>
        mantissa (times64 r thousand) \<le> 2 ^ 53
        \<and> \<bar>value64 (times64 r thousand) - value64 r * 1000\<bar> \<le> value64 r * 1000 / 2 ^ 53)
   \<and> (valid64 r \<and> value64 r < 1 \<longrightarrow> 0 \<le> networkMembers r \<and> networkMembers r \<le> 999)
   \<and> summaryPanels t st r ! 0 = (t ''networkMembers'', networkMembers r)
   \<and> summaryPanels t st r ! 0 = summaryPanels t st' r ! 0
   \<and> networkMembers \<lparr>mantissa = 0, exponent = 0\<rparr> = 0
   \<and> networkMembers \<lparr>mantissa = 1, exponent = - 1\<rparr> = 500
   \<and> networkMembers \<lparr>mantissa = 131730289100587, exponent = - 50\<rparr> = 117
   \<and> networkMembers \<lparr>mantissa = 9007199254740991, exponent = - 53\<rparr> = 999
   \<and> (\<not> db_loading st \<longrightarrow>
        dashboard_render t fmt st \<lparr>mantissa = 0, exponent = 0\<rparr>
          \<noteq> dashboard_render t fmt st \<lparr>mantissa = 1, exponent = - 1\<rparr>)"
proof -
  have "networkMembers r = \<lfloor>value64 (times64 r thousand)\<rfloor>"
    by (simp add: networkMembers_def floor64_eq)
  moreover have "summaryPanels t st r ! 0 = (t ''networkMembers'', networkMembers r)"
    and "summaryPanels t st r ! 0 = summaryPanels t st' r ! 0"
    by (simp_all add: summaryPanels_def)
  moreover have "dashboard_render t fmt st \<lparr>mantissa = 0, exponent = 0\<rparr>
          \<noteq> dashboard_render t fmt st \<lparr>mantissa = 1, exponent = - 1\<rparr>"
    if "\<not> db_loading st"
  proof -
    have "networkMembers \<lparr>mantissa = 0, exponent = 0\<rparr>
        \<noteq> networkMembers \<lparr>mantissa = 1, exponent = - 1\<rparr>"
      unfolding counter_at_zero counter_at_half by simp
    with that show ?thesis
      by (simp add: dashboard_render_def summaryPanels_def)
  qed
  ultimately show ?thesis
    using times_thousand_digits [of r] times_thousand_error [of r] counter_range [of r]
      counter_at_zero counter_at_half counter_at_tie counter_at_largest
    by blast
qed

theorem networkMembers_random_witness:
  "valid64 \<lparr>mantissa = 9007199254740991, exponent = - 53\<rparr>
   \<and> value64 \<lparr>mantissa = 9007199254740991, exponent = - 53\<rparr> < 1
   \<and> mantissa (times64 \<lparr>mantissa = 9007199254740991, exponent = - 53\<rparr> thousand) \<le> 2 ^ 53
   \<and> 0 \<le> networkMembers \<lparr>mantissa = 9007199254740991, exponent = - 53\<rparr>
   \<and> networkMembers \<lparr>mantissa = 9007199254740991, exponent = - 53\<rparr> \<le> 999
   \<and> \<not> db_loading dashboard_initial_state
   \<and> dashboard_render id id dashboard_initial_state \<lparr>mantissa = 0, exponent = 0\<rparr>
       \<noteq> dashboard_render id id dashboard_initial_state \<lparr>mantissa = 1, exponent = - 1\<rparr>"
proof -
  have v: "valid64 \<lparr>mantissa = 9007199254740991, exponent = - 53\<rparr>"
    by (simp add: valid64_def)
  have b: "value64 \<lparr>mantissa = 9007199254740991, exponent = - 53\<rparr> < 1"
    by (simp add: value64_def power_int_minus field_simps)
  have l: "\<not> db_loading dashboard_initial_state"
    by (simp add: dashboard_initial_state_def)
  show ?thesis
    using v b l
      networkMembers_random [of "\<lparr>mantissa = 9007199254740991, exponent = - 53\<rparr>" id
        dashboard_initial_state dashboard_initial_state id]
    by blast
qed

end
